theory Spec2Isabelle
  imports Complex_Main "HOL-Library.AList" "HOL-Library.Sublist"
begin

section \<open>Data model (driver.hpp)\<close>

text \<open>
  \<^verbatim>\<open>struct Response { bool success; std::string error_message; };\<close>
\<close>

record Response =
  success :: bool
  error_message :: string

text \<open>
  A \<^verbatim>\<open>steady_clock\<close> time point is a count of nanoseconds; a
  \<^verbatim>\<open>std::chrono::duration<double>\<close> is a number of seconds, and
  \<^verbatim>\<open>std::chrono::seconds(n)\<close> converts to it as the number \<open>n\<close>.
\<close>

type_synonym time_point = int
type_synonym duration = real

definition seconds :: "int \<Rightarrow> duration" where
  "seconds n = of_int n"

text \<open>
  A \<^verbatim>\<open>std::promise\<close> and the \<^verbatim>\<open>std::future\<close> obtained from it refer to one
  shared state. The shared states live in a store; a promise and a future are the index
  of their shared state. A shared state is not ready, holds a value (here an optional
  Response), or holds the \<^verbatim>\<open>broken_promise\<close> error that the destructor of a
  promise stores when the promise dies unsatisfied.
\<close>

datatype shared_state = NotReady | Ready "Response option" | BrokenPromise

type_synonym promise = nat
type_synonym future = nat

text \<open>
  \<^verbatim>\<open>struct Request { time_point ts; duration<double> timeout; promise<...> promise; };\<close>
\<close>

record Request =
  ts :: time_point
  timeout :: duration
  promise :: promise

text \<open>A default-constructed \<^verbatim>\<open>std::thread\<close> runs nothing.\<close>

datatype thread = NotAThread | Running

text \<open>
  The data members of \<^verbatim>\<open>DvlA50Driver\<close> (the trailing underscore of the source's
  member names is dropped), followed by the two things outside the object that its
  operations can touch: the store of shared states and the messages written to the
  connection. \<^verbatim>\<open>responses_\<close> is an unordered map from the command type to a queue of
  requests: an association list with distinct keys, the front of a queue being the head
  of its list. The class has no member for a socket.
\<close>

type_synonym table = "(string \<times> Request list) list"

record world =
  poll_thread :: thread
  watchdog_thread :: thread
  responses :: table
  responses_mutex :: bool
  shared :: "shared_state list"
  sent :: "string list"

section \<open>The driver (driver.cpp)\<close>

text \<open>
  \<^verbatim>\<open>DvlA50Driver::DvlA50Driver(const std::string & ip, int port) {}\<close>: every member
  is default-initialised; \<open>ip\<close> and \<open>port\<close> are not used, no connection is opened and
  no thread is started.
\<close>

definition DvlA50Driver :: "string \<Rightarrow> int \<Rightarrow> world" where
  "DvlA50Driver ip port =
     \<lparr>poll_thread = NotAThread, watchdog_thread = NotAThread, responses = [],
      responses_mutex = False, shared = [], sent = []\<rparr>"

text \<open>\<^verbatim>\<open>std::promise<...> promise; future = promise.get_future();\<close>\<close>

definition new_promise :: "world \<Rightarrow> promise \<times> world" where
  "new_promise w = (length (shared w), w\<lparr>shared := shared w @ [NotReady]\<rparr>)"

definition get_future :: "promise \<Rightarrow> future" where
  "get_future p = p"

text \<open>
  \<^verbatim>\<open>std::lock_guard<std::mutex> lock(responses_mutex_)\<close> waits while the mutex is
  held; in a sequential run a held mutex is never released, so the call does not
  return: \<open>None\<close>.
\<close>

definition lock :: "world \<Rightarrow> world option" where
  "lock w = (if responses_mutex w then None else Some (w\<lparr>responses_mutex := True\<rparr>))"

definition unlock :: "world \<Rightarrow> world" where
  "unlock w = w\<lparr>responses_mutex := False\<rparr>"

text \<open>
  \<^verbatim>\<open>responses_[type]\<close>: the queue stored under the key, a new empty queue when the
  key is absent. \<^verbatim>\<open>responses_[type].push(std::move(request))\<close> puts the request at
  the back; the source applies \<^verbatim>\<open>std::move\<close> to a \<^verbatim>\<open>const Request\<close>, and the model
  takes the request stored to be the request built.
\<close>

definition queue_at :: "table \<Rightarrow> string \<Rightarrow> Request list" where
  "queue_at tbl type = (case map_of tbl type of None \<Rightarrow> [] | Some q \<Rightarrow> q)"

definition push :: "string \<Rightarrow> Request \<Rightarrow> world \<Rightarrow> world" where
  "push type request w =
     w\<lparr>responses := AList.update type (queue_at (responses w) type @ [request]) (responses w)\<rparr>"

text \<open>
  \<^verbatim>\<open>send_request(type, command, timeout)\<close>. The source reads the clock once; the
  value read is the argument \<open>now\<close>. The body makes the promise and its future, builds
  the request, pushes it under the lock and returns the future. The argument
  \<open>command\<close> is not used: the body starts with
  \<^verbatim>\<open>// TODO(evan): send the message\<close> and calls nothing that writes to the
  connection. The trace lists the worlds the call goes through, one per statement.
\<close>

definition send_request_trace ::
  "string \<Rightarrow> string \<Rightarrow> duration \<Rightarrow> time_point \<Rightarrow> world \<Rightarrow> world list" where
  "send_request_trace type command timeout' now w =
     (let (promise', w1) = new_promise w;
          request = \<lparr>ts = now, timeout = timeout', promise = promise'\<rparr>
      in case lock w1 of
           None \<Rightarrow> [w, w1]
         | Some w2 \<Rightarrow> [w, w1, w2, push type request w2, unlock (push type request w2)])"

definition send_request ::
  "string \<Rightarrow> string \<Rightarrow> duration \<Rightarrow> time_point \<Rightarrow> world \<Rightarrow> (future \<times> world) option" where
  "send_request type command timeout' now w =
     (let (promise', w1) = new_promise w;
          future = get_future promise';
          request = \<lparr>ts = now, timeout = timeout', promise = promise'\<rparr>
      in case lock w1 of
           None \<Rightarrow> None
         | Some w2 \<Rightarrow> Some (future, unlock (push type request w2)))"

text \<open>The four public commands: each formats its payload and calls \<open>send_request\<close>.\<close>

definition calibrate_gyro_command :: string where
  \<open>calibrate_gyro_command = ''{"command": "calibrate_gyro"}''\<close>

definition trigger_ping_command :: string where
  \<open>trigger_ping_command = ''{"command": "trigger_ping"}''\<close>

definition reset_dead_reckoning_command :: string where
  \<open>reset_dead_reckoning_command = ''{"command": "reset_dead_reckoning"}''\<close>

text \<open>\<^verbatim>\<open>ss << R"({"command": "set_config",)" << config << "}"\<close>\<close>

definition set_config_command :: "string \<Rightarrow> string" where
  \<open>set_config_command config = ''{"command": "set_config",'' @ config @ ''}''\<close>

definition calibrate_gyro :: "duration \<Rightarrow> time_point \<Rightarrow> world \<Rightarrow> (future \<times> world) option" where
  "calibrate_gyro timeout' now w =
     send_request ''calibrate_gyro'' calibrate_gyro_command timeout' now w"

definition trigger_ping :: "duration \<Rightarrow> time_point \<Rightarrow> world \<Rightarrow> (future \<times> world) option" where
  "trigger_ping timeout' now w =
     send_request ''trigger_ping'' trigger_ping_command timeout' now w"

definition reset_dead_reckoning ::
  "duration \<Rightarrow> time_point \<Rightarrow> world \<Rightarrow> (future \<times> world) option" where
  "reset_dead_reckoning timeout' now w =
     send_request ''reset_dead_reckoning'' reset_dead_reckoning_command timeout' now w"

definition set_config ::
  "string \<Rightarrow> duration \<Rightarrow> time_point \<Rightarrow> world \<Rightarrow> (future \<times> world) option" where
  "set_config config timeout' now w =
     send_request ''set_config'' (set_config_command config) timeout' now w"

text \<open>
  A call of a public command as the caller writes it: the timeout argument may be left
  out, and the declaration in driver.hpp then supplies
  \<^verbatim>\<open>std::chrono::seconds(3)\<close>.
\<close>

datatype call =
    CalibrateGyro "duration option"
  | TriggerPing "duration option"
  | ResetDeadReckoning "duration option"
  | SetConfig string "duration option"

fun invoke :: "call \<Rightarrow> time_point \<Rightarrow> world \<Rightarrow> (future \<times> world) option" where
  "invoke (CalibrateGyro t) now w =
     calibrate_gyro (case t of None \<Rightarrow> seconds 3 | Some d \<Rightarrow> d) now w"
| "invoke (TriggerPing t) now w =
     trigger_ping (case t of None \<Rightarrow> seconds 3 | Some d \<Rightarrow> d) now w"
| "invoke (ResetDeadReckoning t) now w =
     reset_dead_reckoning (case t of None \<Rightarrow> seconds 3 | Some d \<Rightarrow> d) now w"
| "invoke (SetConfig config t) now w =
     set_config config (case t of None \<Rightarrow> seconds 3 | Some d \<Rightarrow> d) now w"

text \<open>
  \<^verbatim>\<open>DvlA50Driver::~DvlA50Driver() {}\<close>: the members are destroyed, and with the
  table every promise still stored in it; the destructor of a promise whose shared state
  is not ready stores \<^verbatim>\<open>broken_promise\<close> there.
\<close>

definition pending :: "world \<Rightarrow> Request list" where
  "pending w = concat (map snd (responses w))"

definition abandon :: "promise \<Rightarrow> shared_state list \<Rightarrow> shared_state list" where
  "abandon p h = (if p < length h \<and> h ! p = NotReady then h[p := BrokenPromise] else h)"

definition destructor :: "world \<Rightarrow> world" where
  "destructor w =
     w\<lparr>responses := [], shared := fold abandon (map promise (pending w)) (shared w)\<rparr>"

text \<open>What a caller holding the future finds in its shared state.\<close>

definition wait_for :: "future \<Rightarrow> world \<Rightarrow> shared_state option" where
  "wait_for f w = (if f < length (shared w) then Some (shared w ! f) else None)"

fun result_of :: "(future \<times> world) option \<Rightarrow> shared_state option" where
  "result_of None = None"
| "result_of (Some (f, w)) = wait_for f w"

section \<open>The driver in its environment\<close>

text \<open>
  What can happen to a driver: a caller invokes a public command, something arrives
  from the device (a line, already read by the wire parser, or the loss of the
  connection), or time passes. driver.hpp declares \<^verbatim>\<open>void poll()\<close> with the thread
  \<^verbatim>\<open>poll_thread_\<close> ("Poll incoming data") and the thread \<^verbatim>\<open>watchdog_thread_\<close>
  ("Check for request timeouts"), and defines neither body: the bodies are the
  parameters \<open>poll\<close> and \<open>watchdog\<close> of a step. A body runs only in a thread that has
  been started.
\<close>

datatype message =
    VelocityReportMsg
  | DeadReckoningReportMsg
  | CommandReply string Response
  | Unrecognized

datatype inbound = Line message | Disconnected

datatype occurrence = Call call | Arrives inbound | Elapses

type_synonym poll_body = "inbound \<Rightarrow> world \<Rightarrow> world"
type_synonym watchdog_body = "time_point \<Rightarrow> world \<Rightarrow> world"

fun step :: "poll_body \<Rightarrow> watchdog_body \<Rightarrow> time_point \<times> occurrence \<Rightarrow> world \<Rightarrow> world option" where
  "step poll watchdog (now, Call c) w = map_option snd (invoke c now w)"
| "step poll watchdog (now, Arrives i) w =
     Some (if poll_thread w = Running then poll i w else w)"
| "step poll watchdog (now, Elapses) w =
     Some (if watchdog_thread w = Running then watchdog now w else w)"

fun run ::
  "poll_body \<Rightarrow> watchdog_body \<Rightarrow> (time_point \<times> occurrence) list \<Rightarrow> world \<Rightarrow> world option" where
  "run poll watchdog [] w = Some w"
| "run poll watchdog (e # es) w =
     (case step poll watchdog e w of None \<Rightarrow> None | Some w' \<Rightarrow> run poll watchdog es w')"

text \<open>
  Modelled from the spec: the transport's \<open>send(bytes) -> ok/fail\<close>. driver.hpp declares
  \<^verbatim>\<open>void send(const std::string & message)\<close>; no source file defines or calls it.
  The first argument says whether the link to the device is up.
\<close>

datatype transport_error = TransportError

definition send :: "bool \<Rightarrow> string \<Rightarrow> world \<Rightarrow> transport_error + world" where
  "send link_up message w =
     (if link_up then Inr (w\<lparr>sent := sent w @ [message]\<rparr>) else Inl TransportError)"

text \<open>
  Modelled from the spec: the body of the Receive Loop (section 4.2) for one inbound
  occurrence, the body of \<^verbatim>\<open>poll()\<close> that no source file defines. A command reply
  completes the oldest request of its type, if there is one; a report or an unrecognised
  line changes nothing in the table; the loss of the connection fails every pending
  request and ends the loop.
\<close>

definition complete :: "promise \<Rightarrow> Response option \<Rightarrow> world \<Rightarrow> world" where
  "complete p v w = w\<lparr>shared := (shared w)[p := Ready v]\<rparr>"

definition connection_lost :: Response where
  "connection_lost = \<lparr>success = False, error_message = ''connection lost''\<rparr>"

fun poll_spec :: poll_body where
  "poll_spec (Line (CommandReply type r)) w =
     (case queue_at (responses w) type of
        [] \<Rightarrow> w
      | request # rest \<Rightarrow>
          complete (promise request) (Some r)
            (w\<lparr>responses := AList.update type rest (responses w)\<rparr>))"
| "poll_spec (Line m) w = w"
| "poll_spec Disconnected w =
     (fold (\<lambda>request. complete (promise request) (Some connection_lost)) (pending w) w)
       \<lparr>responses := [], poll_thread := NotAThread\<rparr>"

text \<open>
  Modelled from the spec: one pass of the Timeout Sweeper (section 4.3), the body of the
  watchdog thread that no source file defines: every request whose age has reached its
  timeout is removed and completed with an absent Response.
\<close>

definition expired :: "time_point \<Rightarrow> Request \<Rightarrow> bool" where
  "expired now request = (timeout request \<le> real_of_int (now - ts request) / 1000000000)"

definition watchdog_spec :: watchdog_body where
  "watchdog_spec now w =
     (fold (\<lambda>request. complete (promise request) None) (filter (expired now) (pending w)) w)
       \<lparr>responses := map (\<lambda>(type, q). (type, filter (\<lambda>request. \<not> expired now request) q))
                        (responses w)\<rparr>"

text \<open>
  The state of a driver that has done nothing but queue requests: no thread runs, the
  mutex is free, no shared state is ready and nothing has been sent.
\<close>

definition quiet :: "world \<Rightarrow> bool" where
  "quiet w \<longleftrightarrow>
     poll_thread w = NotAThread \<and> watchdog_thread w = NotAThread \<and> \<not> responses_mutex w \<and>
     list_all (\<lambda>s. s = NotReady) (shared w) \<and> sent w = []"

text \<open>
  A trace keeps the lock discipline when every step that changes the table starts and
  ends with the mutex held.
\<close>

fun guarded :: "world list \<Rightarrow> bool" where
  "guarded (a # b # rest) =
     ((responses a = responses b \<or> (responses_mutex a \<and> responses_mutex b)) \<and> guarded (b # rest))"
| "guarded _ = True"

section \<open>What one call does\<close>

lemma send_request_result:
  "\<not> responses_mutex w \<Longrightarrow>
   send_request type command timeout' now w =
     Some (length (shared w),
           w\<lparr>responses := AList.update type
                 (queue_at (responses w) type @
                    [\<lparr>ts = now, timeout = timeout', promise = length (shared w)\<rparr>]) (responses w),
             shared := shared w @ [NotReady]\<rparr>)"
  by (simp add: send_request_def new_promise_def get_future_def lock_def unlock_def push_def)

lemma send_request_blocked:
  "responses_mutex w \<Longrightarrow> send_request type command timeout' now w = None"
  by (simp add: send_request_def new_promise_def lock_def)

lemma send_request_trace_result:
  "\<not> responses_mutex w \<Longrightarrow>
   send_request type command timeout' now w = Some (f, w') \<Longrightarrow>
   last (send_request_trace type command timeout' now w) = w' \<and>
   hd (send_request_trace type command timeout' now w) = w"
  by (auto simp add: send_request_def send_request_trace_def new_promise_def lock_def
      split: if_splits)

lemma send_request_trace_guarded:
  "guarded (send_request_trace type command timeout' now w)"
  by (simp add: send_request_trace_def new_promise_def lock_def unlock_def push_def Let_def)

section \<open>What a run does\<close>

lemma quiet_constructed: "quiet (DvlA50Driver ip port)"
  by (simp add: quiet_def DvlA50Driver_def)

lemma quiet_send_request:
  assumes "quiet w"
  shows "\<exists>f w'. send_request type command timeout' now w = Some (f, w') \<and> quiet w'"
proof -
  from assms have free: "\<not> responses_mutex w"
    by (simp add: quiet_def)
  show ?thesis
    using assms by (simp add: send_request_result [OF free] quiet_def)
qed

lemma quiet_invoke:
  assumes "quiet w"
  shows "\<exists>f w'. invoke c now w = Some (f, w') \<and> quiet w'"
  using quiet_send_request [OF assms]
  by (cases c)
    (simp_all add: calibrate_gyro_def trigger_ping_def reset_dead_reckoning_def set_config_def)

lemma quiet_step:
  assumes "quiet w"
  shows "\<exists>w'. step poll watchdog e w = Some w' \<and> quiet w'"
proof (cases e)
  case (Pair now occ)
  show ?thesis
  proof (cases occ)
    case (Call c)
    with Pair quiet_invoke [OF assms, of c now] show ?thesis
      by auto
  next
    case (Arrives i)
    with Pair assms show ?thesis
      by (simp add: quiet_def)
  next
    case Elapses
    with Pair assms show ?thesis
      by (simp add: quiet_def)
  qed
qed

lemma quiet_run:
  "quiet w \<Longrightarrow> \<exists>w'. run poll watchdog es w = Some w' \<and> quiet w'"
proof (induction es arbitrary: w)
  case Nil
  then show ?case by simp
next
  case (Cons e es)
  from quiet_step [OF Cons.prems, of poll watchdog e]
  obtain w1 where w1: "step poll watchdog e w = Some w1" "quiet w1"
    by blast
  from Cons.IH [OF w1(2)] w1(1) show ?case
    by simp
qed

text \<open>No call of a run blocks: every run of a driver from its construction comes to an end.\<close>

lemma run_returns: "\<exists>w. run poll watchdog es (DvlA50Driver ip port) = Some w \<and> quiet w"
  by (rule quiet_run [OF quiet_constructed])

lemma quiet_step_shared:
  assumes "quiet w" and "step poll watchdog e w = Some w'"
  shows "length (shared w) \<le> length (shared w')"
proof (cases e)
  case (Pair now occ)
  from assms(1) have free: "\<not> responses_mutex w"
    by (simp add: quiet_def)
  show ?thesis
  proof (cases occ)
    case (Call c)
    with Pair assms(2) free show ?thesis
      by (cases c)
        (auto simp add: calibrate_gyro_def trigger_ping_def reset_dead_reckoning_def
          set_config_def send_request_result)
  next
    case (Arrives i)
    with Pair assms show ?thesis
      by (auto simp add: quiet_def)
  next
    case Elapses
    with Pair assms show ?thesis
      by (auto simp add: quiet_def)
  qed
qed

lemma quiet_run_shared:
  "quiet w \<Longrightarrow> run poll watchdog es w = Some w' \<Longrightarrow> length (shared w) \<le> length (shared w')"
proof (induction es arbitrary: w)
  case Nil
  then show ?case by simp
next
  case (Cons e es)
  from quiet_step [OF Cons.prems(1), of poll watchdog e]
  obtain w1 where w1: "step poll watchdog e w = Some w1" "quiet w1"
    by blast
  from Cons.prems(2) w1(1) have "run poll watchdog es w1 = Some w'"
    by simp
  from Cons.IH [OF w1(2) this] quiet_step_shared [OF Cons.prems(1) w1(1)] show ?case
    by simp
qed

lemma invoke_future:
  assumes "\<not> responses_mutex w" and "invoke c now w = Some (f, w')"
  shows "f = length (shared w) \<and> length (shared w') = Suc (length (shared w))"
  using assms
  by (cases c)
    (auto simp add: calibrate_gyro_def trigger_ping_def reset_dead_reckoning_def
      set_config_def send_request_result)

lemma quiet_wait_for: "quiet w \<Longrightarrow> f < length (shared w) \<Longrightarrow> wait_for f w = Some NotReady"
  by (simp add: quiet_def wait_for_def list_all_length)

text \<open>
  The promises of the requests in the table are the promises made so far: a request is
  queued with every promise, and nothing removes a request.
\<close>

lemma pending_update:
  "set (concat (map snd (AList.update k (queue_at tbl k @ [r]) tbl))) =
     insert r (set (concat (map snd tbl)))"
  by (induction tbl) (auto simp add: queue_at_def)

lemma send_request_tracked:
  assumes "\<not> responses_mutex w" and "promise ` set (pending w) = {..<length (shared w)}"
    and "send_request type command timeout' now w = Some (f, w')"
  shows "promise ` set (pending w') = {..<length (shared w')}"
proof -
  from assms(3) have w': "w' = w\<lparr>responses := AList.update type
                (queue_at (responses w) type @
                   [\<lparr>ts = now, timeout = timeout', promise = length (shared w)\<rparr>]) (responses w),
              shared := shared w @ [NotReady]\<rparr>"
    by (auto simp add: send_request_result [OF assms(1)])
  have "set (pending w') =
          insert \<lparr>ts = now, timeout = timeout', promise = length (shared w)\<rparr> (set (pending w))"
    unfolding pending_def w' by (simp add: pending_update del: set_concat)
  with assms(2) w' show ?thesis
    by (simp add: lessThan_Suc)
qed

lemma invoke_tracked:
  assumes "\<not> responses_mutex w" and "promise ` set (pending w) = {..<length (shared w)}"
    and "invoke c now w = Some (f, w')"
  shows "promise ` set (pending w') = {..<length (shared w')}"
  using assms(3) send_request_tracked [OF assms(1,2)]
  by (cases c)
    (simp_all add: calibrate_gyro_def trigger_ping_def reset_dead_reckoning_def set_config_def)

lemma quiet_step_tracked:
  assumes "quiet w" and "promise ` set (pending w) = {..<length (shared w)}"
    and "step poll watchdog e w = Some w'"
  shows "promise ` set (pending w') = {..<length (shared w')}"
proof (cases e)
  case (Pair now occ)
  from assms(1) have free: "\<not> responses_mutex w"
    by (simp add: quiet_def)
  show ?thesis
  proof (cases occ)
    case (Call c)
    with Pair assms(3) obtain f where "invoke c now w = Some (f, w')"
      by auto
    from invoke_tracked [OF free assms(2) this] show ?thesis .
  next
    case (Arrives i)
    with Pair assms show ?thesis
      by (auto simp add: quiet_def)
  next
    case Elapses
    with Pair assms show ?thesis
      by (auto simp add: quiet_def)
  qed
qed

lemma quiet_run_tracked:
  "quiet w \<Longrightarrow> promise ` set (pending w) = {..<length (shared w)} \<Longrightarrow>
   run poll watchdog es w = Some w' \<Longrightarrow>
   promise ` set (pending w') = {..<length (shared w')}"
proof (induction es arbitrary: w)
  case Nil
  then show ?case by simp
next
  case (Cons e es)
  from quiet_step [OF Cons.prems(1), of poll watchdog e]
  obtain w1 where w1: "step poll watchdog e w = Some w1" "quiet w1"
    by blast
  from Cons.prems(3) w1(1) have r: "run poll watchdog es w1 = Some w'"
    by simp
  from Cons.IH [OF w1(2) quiet_step_tracked [OF Cons.prems(1,2) w1(1)] r] show ?case .
qed

lemma constructed_tracked:
  "promise ` set (pending (DvlA50Driver ip port)) = {..<length (shared (DvlA50Driver ip port))}"
  by (simp add: pending_def DvlA50Driver_def)

lemma abandon_nth:
  "f < length h \<Longrightarrow>
   abandon p h ! f = (if p = f \<and> h ! f = NotReady then BrokenPromise else h ! f)"
  by (auto simp add: abandon_def nth_list_update)

lemma abandon_length: "length (abandon p h) = length h"
  by (simp add: abandon_def)

lemma fold_abandon_nth:
  "f < length h \<Longrightarrow>
   fold abandon ps h ! f = (if f \<in> set ps \<and> h ! f = NotReady then BrokenPromise else h ! f)"
  by (induction ps arbitrary: h) (auto simp add: abandon_nth abandon_length)

lemma fold_abandon_length: "length (fold abandon ps h) = length h"
  by (induction ps arbitrary: h) (simp_all add: abandon_length)




lemma sublist_before_brace:
  \<open>sublist ''"parameters"'' (config @ ''}'') \<longleftrightarrow> sublist ''"parameters"'' config\<close>
proof
  assume \<open>sublist ''"parameters"'' (config @ ''}'')\<close>
  then consider \<open>sublist ''"parameters"'' config\<close> | \<open>sublist ''"parameters"'' ''}''\<close>
    | xs1 xs2 where \<open>''"parameters"'' = xs1 @ xs2\<close> \<open>suffix xs1 config\<close> \<open>prefix xs2 ''}''\<close>
    by (auto simp add: sublist_append)
  then show \<open>sublist ''"parameters"'' config\<close>
  proof cases
    case 1
    then show ?thesis .
  next
    case 2
    from sublist_length_le [OF this] show ?thesis
      by simp
  next
    case 3
    from 3(3) have \<open>xs2 = [] \<or> xs2 = ''}''\<close>
      by (auto simp add: prefix_Cons)
    then show ?thesis
    proof
      assume \<open>xs2 = []\<close>
      with 3(1,2) show ?thesis
        by (simp add: suffix_imp_sublist)
    next
      assume \<open>xs2 = ''}''\<close>
      with 3(1) have \<open>last ''"parameters"'' = last (xs1 @ ''}'')\<close>
        by simp
      then show ?thesis
        by simp
    qed
  qed
next
  assume \<open>sublist ''"parameters"'' config\<close>
  then show \<open>sublist ''"parameters"'' (config @ ''}'')\<close>
    by (simp add: sublist_append)
qed

lemma sublist_after_command:
  \<open>sublist ''"parameters"'' (set_config_command config) \<longleftrightarrow>
   sublist ''"parameters"'' (config @ ''}'')\<close>
  by (simp add: set_config_command_def sublist_Cons_right prefix_Cons)

text \<open>The example of the documentation of \<open>set_config\<close> in driver.hpp.\<close>

lemma set_config_command_documented:
  \<open>set_config_command ''"parameters": {"speed_of_sound": 1480}'' =
   ''{"command": "set_config","parameters": {"speed_of_sound": 1480}}''\<close>
  by (simp add: set_config_command_def)

text \<open>
  Had the threads been started, the bodies taken from the spec would complete the
  requests: replies oldest first, a timeout with an absent Response, the loss of the
  connection with a failure for every pending request.
\<close>

lemma started_poll_spec_is_fifo:
  "run poll_spec watchdog_spec
     [(0, Call (CalibrateGyro None)),
      (5, Call (CalibrateGyro None)),
      (10, Arrives (Line (CommandReply ''calibrate_gyro'' \<lparr>success = True, error_message = []\<rparr>))),
      (11, Arrives (Line (CommandReply ''calibrate_gyro'' \<lparr>success = False, error_message = ''busy''\<rparr>)))]
     ((DvlA50Driver ''192.168.194.95'' 16171)\<lparr>poll_thread := Running\<rparr>) =
   Some \<lparr>poll_thread = Running, watchdog_thread = NotAThread,
         responses = [(''calibrate_gyro'', [])],
         responses_mutex = False,
         shared = [Ready (Some \<lparr>success = True, error_message = []\<rparr>),
                   Ready (Some \<lparr>success = False, error_message = ''busy''\<rparr>)],
         sent = []\<rparr>"
  by (simp add: calibrate_gyro_def send_request_def new_promise_def get_future_def lock_def
      unlock_def push_def queue_at_def DvlA50Driver_def seconds_def complete_def)

lemma started_watchdog_spec_times_out:
  "run poll_spec watchdog_spec
     [(0, Call (TriggerPing (Some (1 / 5)))), (100000000, Elapses)]
     ((DvlA50Driver ''192.168.194.95'' 16171)\<lparr>watchdog_thread := Running\<rparr>) =
   Some \<lparr>poll_thread = NotAThread, watchdog_thread = Running,
         responses = [(''trigger_ping'', [\<lparr>ts = 0, timeout = 1 / 5, promise = 0\<rparr>])],
         responses_mutex = False, shared = [NotReady], sent = []\<rparr> \<and>
   run poll_spec watchdog_spec
     [(0, Call (TriggerPing (Some (1 / 5)))), (100000000, Elapses), (200000000, Elapses)]
     ((DvlA50Driver ''192.168.194.95'' 16171)\<lparr>watchdog_thread := Running\<rparr>) =
   Some \<lparr>poll_thread = NotAThread, watchdog_thread = Running,
         responses = [(''trigger_ping'', [])],
         responses_mutex = False, shared = [Ready None], sent = []\<rparr>"
  by (simp add: trigger_ping_def send_request_def new_promise_def get_future_def lock_def
      unlock_def push_def queue_at_def DvlA50Driver_def complete_def watchdog_spec_def
      pending_def expired_def)

lemma started_poll_spec_drains:
  "run poll_spec watchdog_spec
     [(0, Call (TriggerPing None)), (1, Call (CalibrateGyro None)), (2, Arrives Disconnected)]
     ((DvlA50Driver ''192.168.194.95'' 16171)\<lparr>poll_thread := Running\<rparr>) =
   Some \<lparr>poll_thread = NotAThread, watchdog_thread = NotAThread,
         responses = [],
         responses_mutex = False,
         shared = [Ready (Some connection_lost), Ready (Some connection_lost)],
         sent = []\<rparr>"
  by (simp add: trigger_ping_def calibrate_gyro_def send_request_def new_promise_def
      get_future_def lock_def unlock_def push_def queue_at_def DvlA50Driver_def seconds_def
      complete_def pending_def)

section \<open>The claims\<close>

text \<open>
  C1: \<open>send_request\<close> builds the request with the time read at the call, puts it at the
  back of the queue of its type under the mutex, releases the mutex, sends the payload
  and returns the future without waiting. Evaluated on a new driver, a call of
  \<open>calibrate_gyro\<close> at time 7 does all of that except the send: the request is queued
  with \<open>ts = 7\<close>, the mutex is free again, the future 0 is returned, and nothing has been
  written to the connection, where the transport's \<open>send\<close> on a link that is up would
  have left the payload.
\<close>

theorem send_request_sends_nothing:
  "invoke (CalibrateGyro None) 7 (DvlA50Driver ''192.168.194.95'' 16171) =
     Some (0, \<lparr>poll_thread = NotAThread, watchdog_thread = NotAThread,
               responses = [(''calibrate_gyro'', [\<lparr>ts = 7, timeout = 3, promise = 0\<rparr>])],
               responses_mutex = False, shared = [NotReady], sent = []\<rparr>) \<and>
   map_sum id sent (send True calibrate_gyro_command (DvlA50Driver ''192.168.194.95'' 16171)) =
     Inr [calibrate_gyro_command]"
  by (simp add: calibrate_gyro_def send_request_def new_promise_def get_future_def lock_def
      unlock_def push_def queue_at_def DvlA50Driver_def seconds_def send_def)



text \<open>
  C3: the completion of every request is assigned exactly once, by the receive loop or
  by the sweeper, also when a reply and the expiry come at the same instant, and the
  request then leaves the table. Evaluated with the loop and the sweeper of the spec as
  the thread bodies, for a ping with a timeout of one second whose reply arrives at the
  instant the timeout expires, in both orders: the completion is assigned by neither, and
  the request stays in the table.
\<close>

theorem completion_assigned_by_nobody:
  "run poll_spec watchdog_spec
     [(0, Call (TriggerPing (Some 1))),
      (1000000000, Arrives (Line (CommandReply ''trigger_ping'' \<lparr>success = True, error_message = []\<rparr>))),
      (1000000000, Elapses)]
     (DvlA50Driver ''192.168.194.95'' 16171) =
   Some \<lparr>poll_thread = NotAThread, watchdog_thread = NotAThread,
         responses = [(''trigger_ping'', [\<lparr>ts = 0, timeout = 1, promise = 0\<rparr>])],
         responses_mutex = False, shared = [NotReady], sent = []\<rparr> \<and>
   run poll_spec watchdog_spec
     [(0, Call (TriggerPing (Some 1))),
      (1000000000, Elapses),
      (1000000000, Arrives (Line (CommandReply ''trigger_ping'' \<lparr>success = True, error_message = []\<rparr>)))]
     (DvlA50Driver ''192.168.194.95'' 16171) =
   Some \<lparr>poll_thread = NotAThread, watchdog_thread = NotAThread,
         responses = [(''trigger_ping'', [\<lparr>ts = 0, timeout = 1, promise = 0\<rparr>])],
         responses_mutex = False, shared = [NotReady], sent = []\<rparr>"
  by (simp add: trigger_ping_def send_request_def new_promise_def get_future_def lock_def
      unlock_def push_def queue_at_def DvlA50Driver_def)

text \<open>
  C4: a command with timeout T that gets no reply resolves to an absent Response, not
  before T and soon after it. Evaluated with the sweeper of the spec as the body of the
  watchdog, for a ping with a timeout of 0.2 seconds and no reply: after 0.1, 0.2, 0.3
  and 10 seconds the request is still in the table and its future is not ready.
\<close>

theorem timeout_completes_nothing:
  "run poll_spec watchdog_spec
     [(0, Call (TriggerPing (Some (1 / 5)))),
      (100000000, Elapses),
      (200000000, Elapses),
      (300000000, Elapses),
      (10000000000, Elapses)]
     (DvlA50Driver ''192.168.194.95'' 16171) =
   Some \<lparr>poll_thread = NotAThread, watchdog_thread = NotAThread,
         responses = [(''trigger_ping'', [\<lparr>ts = 0, timeout = 1 / 5, promise = 0\<rparr>])],
         responses_mutex = False, shared = [NotReady], sent = []\<rparr>"
  by (simp add: trigger_ping_def send_request_def new_promise_def get_future_def lock_def
      unlock_def push_def queue_at_def DvlA50Driver_def)



text \<open>
  C7, as stated: for every config string the payload of \<open>set_config\<close> carries the
  caller's fragment under a "parameters" key. It fails for the fragment
  \<^verbatim>\<open>"speed_of_sound": 1480\<close>: the payload has no "parameters" key.
\<close>

theorem set_config_parameters_key_counterexample:
  \<open>set_config_command ''"speed_of_sound": 1480'' =
     ''{"command": "set_config","speed_of_sound": 1480}'' \<and>
   \<not> sublist ''"parameters"'' (set_config_command ''"speed_of_sound": 1480'')\<close>
  by (simp add: set_config_command_def sublist_Cons_right prefix_Cons)

text \<open>
  C7, amended: for every config string the payload of \<open>set_config\<close> is the string
  \<^verbatim>\<open>{"command": "set_config",\<close> followed by the caller's fragment as it is and a
  closing brace. The payload names the operation under the "command" key; nothing is
  checked and no "parameters" key is added: the payload has one exactly when the
  caller's fragment has one. That payload is what \<open>set_config\<close> hands to
  \<open>send_request\<close> under the type \<open>set_config\<close>.
\<close>

theorem set_config_command_verbatim:
  \<open>set_config_command config = ''{"command": "set_config",'' @ config @ ''}'' \<and>
   prefix ''{"command": "set_config",'' (set_config_command config) \<and>
   (sublist ''"parameters"'' (set_config_command config) \<longleftrightarrow>
      sublist ''"parameters"'' config) \<and>
   set_config config timeout' now w =
     send_request ''set_config'' (set_config_command config) timeout' now w\<close>
proof -
  have \<open>set_config_command config = ''{"command": "set_config",'' @ config @ ''}''\<close>
    by (simp add: set_config_command_def)
  moreover have \<open>prefix ''{"command": "set_config",'' (set_config_command config)\<close>
    by (simp add: set_config_command_def)
  moreover have \<open>sublist ''"parameters"'' (set_config_command config) \<longleftrightarrow>
      sublist ''"parameters"'' config\<close>
    using sublist_after_command [of config] sublist_before_brace [of config]
    by (rule trans)
  moreover have \<open>set_config config timeout' now w =
     send_request ''set_config'' (set_config_command config) timeout' now w\<close>
    by (simp add: set_config_def)
  ultimately show ?thesis
    by blast
qed

text \<open>
  C8: each of the four public commands, called without a timeout, queues its request
  with a timeout of 3 seconds.
\<close>

theorem default_timeout_is_three_seconds:
  assumes "\<not> responses_mutex w"
  shows "(\<exists>f w'. invoke (CalibrateGyro None) now w = Some (f, w') \<and>
            last (queue_at (responses w') ''calibrate_gyro'') = \<lparr>ts = now, timeout = 3, promise = f\<rparr>) \<and>
         (\<exists>f w'. invoke (TriggerPing None) now w = Some (f, w') \<and>
            last (queue_at (responses w') ''trigger_ping'') = \<lparr>ts = now, timeout = 3, promise = f\<rparr>) \<and>
         (\<exists>f w'. invoke (ResetDeadReckoning None) now w = Some (f, w') \<and>
            last (queue_at (responses w') ''reset_dead_reckoning'') =
              \<lparr>ts = now, timeout = 3, promise = f\<rparr>) \<and>
         (\<exists>f w'. invoke (SetConfig config None) now w = Some (f, w') \<and>
            last (queue_at (responses w') ''set_config'') = \<lparr>ts = now, timeout = 3, promise = f\<rparr>)"
  by (simp add: calibrate_gyro_def trigger_ping_def reset_dead_reckoning_def set_config_def
      send_request_result [OF assms] seconds_def queue_at_def AList.update_conv')

theorem default_timeout_is_three_seconds_witness:
  "\<not> responses_mutex (DvlA50Driver ''192.168.194.95'' 16171) \<and>
   (\<exists>f w'. invoke (TriggerPing None) 42 (DvlA50Driver ''192.168.194.95'' 16171) = Some (f, w') \<and>
      last (queue_at (responses w') ''trigger_ping'') = \<lparr>ts = 42, timeout = 3, promise = f\<rparr>)"
proof -
  have free: "\<not> responses_mutex (DvlA50Driver ''192.168.194.95'' 16171)"
    by (simp add: DvlA50Driver_def)
  from default_timeout_is_three_seconds [OF free, of 42] free show ?thesis
    by blast
qed

text \<open>
  C9, as stated: the future returned by a call of a public command is never made ready
  by the driver. It fails when the driver is destroyed: the future returned by a ping is
  not ready when the call returns, and is ready, with the \<^verbatim>\<open>broken_promise\<close> error,
  once the destructor has destroyed the table and the promise in it.
\<close>

theorem future_never_ready_counterexample:
  "result_of (invoke (TriggerPing None) 0 (DvlA50Driver ''192.168.194.95'' 16171)) = Some NotReady \<and>
   result_of (map_option (apsnd destructor)
      (invoke (TriggerPing None) 0 (DvlA50Driver ''192.168.194.95'' 16171))) = Some BrokenPromise"
  by (simp add: trigger_ping_def send_request_def new_promise_def get_future_def lock_def
      unlock_def push_def queue_at_def DvlA50Driver_def seconds_def wait_for_def destructor_def
      pending_def abandon_def)

text \<open>
  C9, amended: no value is ever assigned to the promise of a request. For every run of a
  driver from its construction, whatever the bodies of \<open>poll\<close> and of the watchdog, the
  future returned by any call of a public command is not ready at any later point of the
  run, nor is any other, and no thread has been started; the destruction of the driver
  makes the future ready, with the \<^verbatim>\<open>broken_promise\<close> error and no value.
\<close>

theorem future_ready_only_at_destruction:
  assumes "run poll watchdog es (DvlA50Driver ip port) = Some w"
    and "invoke c now w = Some (f, w')"
    and "run poll watchdog es' w' = Some w''"
  shows "wait_for f w'' = Some NotReady \<and>
         list_all (\<lambda>s. s = NotReady) (shared w'') \<and>
         poll_thread w'' = NotAThread \<and> watchdog_thread w'' = NotAThread \<and>
         wait_for f (destructor w'') = Some BrokenPromise"
proof -
  from quiet_run [OF quiet_constructed, of poll watchdog es ip port] assms(1) have q: "quiet w"
    by simp
  then have free: "\<not> responses_mutex w"
    by (simp add: quiet_def)
  from quiet_run_tracked [OF quiet_constructed constructed_tracked assms(1)]
  have t: "promise ` set (pending w) = {..<length (shared w)}" .
  from quiet_invoke [OF q, of c now] assms(2) have q': "quiet w'"
    by simp
  from invoke_tracked [OF free t assms(2)]
  have t': "promise ` set (pending w') = {..<length (shared w')}" .
  from quiet_run [OF q', of poll watchdog es'] assms(3) have q'': "quiet w''"
    by simp
  from quiet_run_tracked [OF q' t' assms(3)]
  have t'': "promise ` set (pending w'') = {..<length (shared w'')}" .
  from invoke_future [OF free assms(2)] have "f < length (shared w')"
    by simp
  with quiet_run_shared [OF q' assms(3)] have f: "f < length (shared w'')"
    by simp
  from quiet_wait_for [OF q'' f] have n: "wait_for f w'' = Some NotReady" .
  then have "shared w'' ! f = NotReady"
    using f by (simp add: wait_for_def)
  moreover from f t'' have "f \<in> set (map promise (pending w''))"
    by simp
  ultimately have "wait_for f (destructor w'') = Some BrokenPromise"
    using f by (simp add: wait_for_def destructor_def fold_abandon_length fold_abandon_nth)
  with n q'' show ?thesis
    by (simp add: quiet_def)
qed

theorem future_ready_only_at_destruction_witness:
  "run poll_spec watchdog_spec [] (DvlA50Driver ''192.168.194.95'' 16171) =
     Some (DvlA50Driver ''192.168.194.95'' 16171) \<and>
   invoke (TriggerPing (Some 1)) 0 (DvlA50Driver ''192.168.194.95'' 16171) =
     Some (0, \<lparr>poll_thread = NotAThread, watchdog_thread = NotAThread,
      responses = [(''trigger_ping'', [\<lparr>ts = 0, timeout = 1, promise = 0\<rparr>])],
      responses_mutex = False, shared = [NotReady], sent = []\<rparr>) \<and>
   run poll_spec watchdog_spec
     [(500000000, Arrives (Line (CommandReply ''trigger_ping'' \<lparr>success = True, error_message = []\<rparr>))),
      (2000000000, Elapses)]
     \<lparr>poll_thread = NotAThread, watchdog_thread = NotAThread,
      responses = [(''trigger_ping'', [\<lparr>ts = 0, timeout = 1, promise = 0\<rparr>])],
      responses_mutex = False, shared = [NotReady], sent = []\<rparr> =
     Some \<lparr>poll_thread = NotAThread, watchdog_thread = NotAThread,
      responses = [(''trigger_ping'', [\<lparr>ts = 0, timeout = 1, promise = 0\<rparr>])],
      responses_mutex = False, shared = [NotReady], sent = []\<rparr> \<and>
   wait_for 0 \<lparr>poll_thread = NotAThread, watchdog_thread = NotAThread,
      responses = [(''trigger_ping'', [\<lparr>ts = 0, timeout = 1, promise = 0\<rparr>])],
      responses_mutex = False, shared = [NotReady], sent = []\<rparr> = Some NotReady \<and>
   wait_for 0 (destructor \<lparr>poll_thread = NotAThread, watchdog_thread = NotAThread,
      responses = [(''trigger_ping'', [\<lparr>ts = 0, timeout = 1, promise = 0\<rparr>])],
      responses_mutex = False, shared = [NotReady], sent = []\<rparr>) = Some BrokenPromise"
proof -
  have a: "run poll_spec watchdog_spec [] (DvlA50Driver ''192.168.194.95'' 16171) =
             Some (DvlA50Driver ''192.168.194.95'' 16171)"
    by simp
  have b: "invoke (TriggerPing (Some 1)) 0 (DvlA50Driver ''192.168.194.95'' 16171) =
     Some (0, \<lparr>poll_thread = NotAThread, watchdog_thread = NotAThread,
      responses = [(''trigger_ping'', [\<lparr>ts = 0, timeout = 1, promise = 0\<rparr>])],
      responses_mutex = False, shared = [NotReady], sent = []\<rparr>)"
    by (simp add: trigger_ping_def send_request_def new_promise_def get_future_def lock_def
        unlock_def push_def queue_at_def DvlA50Driver_def)
  have c: "run poll_spec watchdog_spec
     [(500000000, Arrives (Line (CommandReply ''trigger_ping'' \<lparr>success = True, error_message = []\<rparr>))),
      (2000000000, Elapses)]
     \<lparr>poll_thread = NotAThread, watchdog_thread = NotAThread,
      responses = [(''trigger_ping'', [\<lparr>ts = 0, timeout = 1, promise = 0\<rparr>])],
      responses_mutex = False, shared = [NotReady], sent = []\<rparr> =
     Some \<lparr>poll_thread = NotAThread, watchdog_thread = NotAThread,
      responses = [(''trigger_ping'', [\<lparr>ts = 0, timeout = 1, promise = 0\<rparr>])],
      responses_mutex = False, shared = [NotReady], sent = []\<rparr>"
    by simp
  from future_ready_only_at_destruction [OF a b c] a b c show ?thesis
    by simp
qed

text \<open>
  C10: a call of \<open>send_request\<close> with type \<open>t\<close> changes the table in one way only: one
  request is put at the back of the queue of \<open>t\<close>. The queue of every other key is as it
  was, the requests already queued under \<open>t\<close> are still there, unchanged and in front of
  the new one, and the step of the call that changes the table starts and ends with the
  mutex held.
\<close>

theorem send_request_frame:
  assumes "send_request type command timeout' now w = Some (f, w')"
  shows "queue_at (responses w') type =
           queue_at (responses w) type @ [\<lparr>ts = now, timeout = timeout', promise = f\<rparr>] \<and>
         (\<forall>k. k \<noteq> type \<longrightarrow> map_of (responses w') k = map_of (responses w) k) \<and>
         (\<forall>k. k \<noteq> type \<longrightarrow> queue_at (responses w') k = queue_at (responses w) k) \<and>
         hd (send_request_trace type command timeout' now w) = w \<and>
         last (send_request_trace type command timeout' now w) = w' \<and>
         guarded (send_request_trace type command timeout' now w)"
proof -
  have free: "\<not> responses_mutex w"
  proof
    assume "responses_mutex w"
    from send_request_blocked [OF this] assms show False
      by simp
  qed
  from assms send_request_result [OF free, of type command timeout' now] have
    f: "f = length (shared w)" and
    w': "w' = w\<lparr>responses := AList.update type
                (queue_at (responses w) type @
                   [\<lparr>ts = now, timeout = timeout', promise = length (shared w)\<rparr>]) (responses w),
              shared := shared w @ [NotReady]\<rparr>"
    by auto
  from f w' send_request_trace_result [OF free assms] send_request_trace_guarded show ?thesis
    by (simp add: queue_at_def AList.update_conv')
qed

theorem send_request_frame_witness:
  "send_request ''trigger_ping'' trigger_ping_command 3 9
     \<lparr>poll_thread = NotAThread, watchdog_thread = NotAThread,
      responses = [(''calibrate_gyro'', [\<lparr>ts = 1, timeout = 3, promise = 0\<rparr>]),
                   (''trigger_ping'', [\<lparr>ts = 2, timeout = 3, promise = 1\<rparr>])],
      responses_mutex = False, shared = [NotReady, NotReady], sent = []\<rparr> =
   Some (2, \<lparr>poll_thread = NotAThread, watchdog_thread = NotAThread,
      responses = [(''calibrate_gyro'', [\<lparr>ts = 1, timeout = 3, promise = 0\<rparr>]),
                   (''trigger_ping'', [\<lparr>ts = 2, timeout = 3, promise = 1\<rparr>,
                                       \<lparr>ts = 9, timeout = 3, promise = 2\<rparr>])],
      responses_mutex = False, shared = [NotReady, NotReady, NotReady], sent = []\<rparr>) \<and>
   queue_at
     (responses \<lparr>poll_thread = NotAThread, watchdog_thread = NotAThread,
      responses = [(''calibrate_gyro'', [\<lparr>ts = 1, timeout = 3, promise = 0\<rparr>]),
                   (''trigger_ping'', [\<lparr>ts = 2, timeout = 3, promise = 1\<rparr>,
                                       \<lparr>ts = 9, timeout = 3, promise = 2\<rparr>])],
      responses_mutex = False, shared = [NotReady, NotReady, NotReady], sent = []\<rparr>)
     ''trigger_ping'' =
   [\<lparr>ts = 2, timeout = 3, promise = 1\<rparr>, \<lparr>ts = 9, timeout = 3, promise = 2\<rparr>]"
proof -
  have a: "send_request ''trigger_ping'' trigger_ping_command 3 9
     \<lparr>poll_thread = NotAThread, watchdog_thread = NotAThread,
      responses = [(''calibrate_gyro'', [\<lparr>ts = 1, timeout = 3, promise = 0\<rparr>]),
                   (''trigger_ping'', [\<lparr>ts = 2, timeout = 3, promise = 1\<rparr>])],
      responses_mutex = False, shared = [NotReady, NotReady], sent = []\<rparr> =
   Some (2, \<lparr>poll_thread = NotAThread, watchdog_thread = NotAThread,
      responses = [(''calibrate_gyro'', [\<lparr>ts = 1, timeout = 3, promise = 0\<rparr>]),
                   (''trigger_ping'', [\<lparr>ts = 2, timeout = 3, promise = 1\<rparr>,
                                       \<lparr>ts = 9, timeout = 3, promise = 2\<rparr>])],
      responses_mutex = False, shared = [NotReady, NotReady, NotReady], sent = []\<rparr>)"
    by (simp add: send_request_def new_promise_def get_future_def lock_def unlock_def push_def
        queue_at_def)
  from send_request_frame [OF a] a show ?thesis
    by (simp add: queue_at_def)
qed

end
